theory Spec2Isabelle
  imports Main "HOL-Library.Sublist"
begin

section \<open>Python values, objects and exceptions\<close>

text \<open>
  The adapter of \<^verbatim>\<open>src/dspy_promptfoo/provider.py\<close> and the credential set-up of
  \<^verbatim>\<open>src/dspy_promptfoo/auth.py\<close> are embedded as HOL functions. An exception is a
  value: every function that can raise returns \<open>exn + 'a\<close>, with \<open>Inl\<close> the
  exception. An exception carries its class name and the text \<^verbatim>\<open>str(e)\<close> gives; all
  exceptions of the model are instances of Python's \<^verbatim>\<open>Exception\<close>, the class the
  handlers of the source catch.
\<close>

datatype exn = Exn (exn_class: string) (exn_str: string)

definition and_then :: "exn + 'a \<Rightarrow> ('a \<Rightarrow> exn + 'b) \<Rightarrow> exn + 'b" where
  "and_then r f = (case r of Inl e \<Rightarrow> Inl e | Inr x \<Rightarrow> f x)"

text \<open>
  A value the adapter stores, forwards or converts to text. \<open>PObj t s\<close> is an object of
  any other type, given by its type name \<open>t\<close> and the text \<open>s\<close> of \<^verbatim>\<open>str()\<close>.
\<close>

datatype pyval = PNone | PBool bool | PInt int | PStr string | PObj string string

function string_of_nat :: "nat \<Rightarrow> string" where
  "string_of_nat n =
     (if n < 10 then [''0123456789'' ! n]
      else string_of_nat (n div 10) @ [''0123456789'' ! (n mod 10)])"
  by pat_completeness auto
termination
  by (relation "measure id") auto

declare string_of_nat.simps [simp del]

definition string_of_int :: "int \<Rightarrow> string" where
  "string_of_int i = (if i < 0 then ''-'' @ string_of_nat (nat (- i)) else string_of_nat (nat i))"

fun py_str :: "pyval \<Rightarrow> string" where
  "py_str PNone = ''None''"
| "py_str (PBool b) = (if b then ''True'' else ''False'')"
| "py_str (PInt i) = string_of_int i"
| "py_str (PStr s) = s"
| "py_str (PObj t s) = s"

fun py_type :: "pyval \<Rightarrow> string" where
  "py_type PNone = ''NoneType''"
| "py_type (PBool b) = ''bool''"
| "py_type (PInt i) = ''int''"
| "py_type (PStr s) = ''str''"
| "py_type (PObj t s) = t"

definition quoted :: "string \<Rightarrow> string" where
  "quoted s = [CHR 0x27] @ s @ [CHR 0x27]"

text \<open>
  A string is the list of the bytes of its UTF-8 encoding. The substring test
  \<^verbatim>\<open>sub in s\<close> is the search for a run of bytes (an encoded text occurs in another
  only at the boundaries of characters). \<open>lower\<close> maps the letters \<^verbatim>\<open>A-Z\<close> to
  \<^verbatim>\<open>a-z\<close> and keeps every other byte; it stands for \<^verbatim>\<open>str.lower()\<close> only where
  \<open>setup_failed\<close> searches the text of an exception for the word \<open>browser\<close>, none of
  whose letters is the lower case of a character outside \<^verbatim>\<open>A-Z\<close>. Where the code
  lower-cases answers of a language model, \<^verbatim>\<open>str.lower()\<close> with its table of the
  Unicode database is a parameter \<open>lc\<close>.
\<close>

definition lower_char :: "char \<Rightarrow> char" where
  "lower_char c =
     (case map_of (zip ''ABCDEFGHIJKLMNOPQRSTUVWXYZ'' ''abcdefghijklmnopqrstuvwxyz'') c of
        Some d \<Rightarrow> d
      | None \<Rightarrow> c)"

definition lower :: "string \<Rightarrow> string" where
  "lower s = map lower_char s"

fun contains :: "string \<Rightarrow> string \<Rightarrow> bool" where
  "contains sub [] = (sub = [])"
| "contains sub (c # cs) = (prefix sub (c # cs) \<or> contains sub cs)"

definition str_lower :: "(string \<Rightarrow> string) \<Rightarrow> pyval \<Rightarrow> exn + string" where
  "str_lower lc v =
     (case v of
        PStr s \<Rightarrow> Inr (lc s)
      | _ \<Rightarrow> Inl (Exn ''AttributeError''
                 (quoted (py_type v) @ '' object has no attribute '' @ quoted ''lower'')))"

text \<open>
  \<^verbatim>\<open>d.get(key, default)\<close> on an optional entry of a dictionary: the entry when the key
  is present, the default otherwise.
\<close>

definition dict_get :: "'a option \<Rightarrow> 'a \<Rightarrow> 'a" where
  "dict_get entry dflt = (case entry of None \<Rightarrow> dflt | Some v \<Rightarrow> v)"

text \<open>
  One entry of the usage log, as the loop of \<^verbatim>\<open>_get_usage_stats\<close> meets it. It is a
  dictionary, given by the token counts it holds under its own keys
  \<^verbatim>\<open>total_tokens\<close>, \<^verbatim>\<open>prompt_tokens\<close> and \<^verbatim>\<open>completion_tokens\<close> and by the
  dictionary of counts it holds under its key \<^verbatim>\<open>usage\<close> (\<open>None\<close> when it has no
  such key), or it is anything else (the test \<^verbatim>\<open>isinstance(entry, dict)\<close> fails; the
  keys met when the log is itself a dictionary are of this kind). A log that is
  \<^verbatim>\<open>None\<close> or empty is the empty list: both are false in \<^verbatim>\<open>if lm_usage\<close>.
\<close>

record usage_data =
  total_tokens :: "int option"
  prompt_tokens :: "int option"
  completion_tokens :: "int option"

datatype usage_entry = DictEntry usage_data "usage_data option" | OtherEntry

text \<open>
  An object as the adapter probes it: its attributes other than the usage accessor, the
  items when the object is a \<^verbatim>\<open>dict\<close>, the text of \<^verbatim>\<open>str()\<close>, the name of its
  type and, when the object has the method \<^verbatim>\<open>get_lm_usage\<close>, the text of
  \<^verbatim>\<open>str()\<close> for the bound method with the log a call returns.
\<close>

record pyobject =
  attrs :: "(string \<times> pyval) list"
  items :: "(string \<times> pyval) list option"
  repr :: string
  type_name :: string
  usage_accessor :: "(string \<times> usage_entry list) option"

definition lookup_attr :: "pyobject \<Rightarrow> string \<Rightarrow> pyval option" where
  "lookup_attr obj name =
     (if name = ''get_lm_usage'' then
        (case usage_accessor obj of None \<Rightarrow> None | Some (txt, entries) \<Rightarrow> Some (PObj ''method'' txt))
      else map_of (attrs obj) name)"

definition hasattr :: "pyobject \<Rightarrow> string \<Rightarrow> bool" where
  "hasattr obj name = (lookup_attr obj name \<noteq> None)"

definition getattr :: "pyobject \<Rightarrow> string \<Rightarrow> exn + pyval" where
  "getattr obj name =
     (case lookup_attr obj name of
        Some v \<Rightarrow> Inr v
      | None \<Rightarrow> Inl (Exn ''AttributeError''
                 (quoted (type_name obj) @ '' object has no attribute '' @ quoted name)))"

definition isinstance_dict :: "pyobject \<Rightarrow> bool" where
  "isinstance_dict obj = (items obj \<noteq> None)"

definition has_key :: "pyobject \<Rightarrow> string \<Rightarrow> bool" where
  "has_key obj k = (case items obj of None \<Rightarrow> False | Some kvs \<Rightarrow> map_of kvs k \<noteq> None)"

definition getitem :: "pyobject \<Rightarrow> string \<Rightarrow> exn + pyval" where
  "getitem obj k =
     (case items obj of
        None \<Rightarrow> Inl (Exn ''TypeError'' (quoted (type_name obj) @ '' object is not subscriptable''))
      | Some kvs \<Rightarrow>
          (case map_of kvs k of
             Some v \<Rightarrow> Inr v
           | None \<Rightarrow> Inl (Exn ''KeyError'' (quoted k))))"

definition get_lm_usage :: "pyobject \<Rightarrow> exn + usage_entry list" where
  "get_lm_usage obj =
     (case usage_accessor obj of
        Some (txt, entries) \<Rightarrow> Inr entries
      | None \<Rightarrow> Inl (Exn ''AttributeError''
                 (quoted (type_name obj) @ '' object has no attribute '' @ quoted ''get_lm_usage'')))"

text \<open>
  A dictionary with string keys whose order of insertion matters is a list of items;
  \<^verbatim>\<open>d[key] = value\<close> replaces the value of a key in place or appends a new item.
\<close>

fun setitem :: "(string \<times> 'v) list \<Rightarrow> string \<Rightarrow> 'v \<Rightarrow> (string \<times> 'v) list" where
  "setitem [] key v = [(key, v)]"
| "setitem ((k, w) # d) key v = (if k = key then (k, v) # d else (k, w) # setitem d key v)"

section \<open>Configuration descriptor, programs and the framework\<close>

text \<open>
  The configuration dictionary \<^verbatim>\<open>config\<close>: each key is absent (\<open>None\<close>) or holds a
  value of the type the interface gives it (module type, signature, optimizer and output
  field are strings, the two flags are booleans, tools and examples are lists), and
  \<^verbatim>\<open>config.get(key, default)\<close> is \<open>dict_get\<close> on the entry. An example is a
  dictionary of named fields whose key \<^verbatim>\<open>inputs\<close>, when present, lists the input
  fields. A tool is the default \<^verbatim>\<open>dummy_tool\<close> of the source or one that the
  configuration names.
\<close>

datatype tool = dummy_tool | Tool string

record example =
  named_fields :: "(string \<times> pyval) list"
  inputs :: "string list option"

record config =
  module_type :: "string option"
  signature :: "string option"
  tools :: "tool list option"
  optimize :: "bool option"
  optimizer :: "string option"
  examples :: "example list option"
  output_field :: "string option"
  debug :: "bool option"

definition empty_config :: config where
  "empty_config = \<lparr>module_type = None, signature = None, tools = None, optimize = None,
     optimizer = None, examples = None, output_field = None, debug = None\<rparr>"

text \<open>
  Objects of the framework are recorded as they were built. The first field is the
  object's identity, its serial number of allocation in the process: two programs are
  the same instance exactly when the identities agree.
\<close>

datatype module_kind = Predict | ChainOfThought | ProgramOfThought | ReAct

datatype dspy_example = Example example "string list"

datatype teleprompter = BootstrapFewShot | BootstrapFewShotWithRandomSearch nat

datatype program =
    Module nat module_kind string "tool list"
  | Compiled nat teleprompter program "dspy_example list"

fun ident :: "program \<Rightarrow> nat" where
  "ident (Module i k s ts) = i"
| "ident (Compiled i t p xs) = i"

text \<open>
  The framework itself is not part of the repository: what its calls do is a parameter.
  \<open>LM\<close> is the construction and registration of the language-model client,
  \<open>Module_init\<close> the constructor of a module (\<open>Some e\<close> when it raises \<open>e\<close>),
  \<open>compile\<close> the run of an optimizer, \<open>forward\<close> the call of a program on keyword
  arguments. The record also carries the one table of Python that the provider relies
  on: \<open>lowercase\<close> is \<^verbatim>\<open>str.lower()\<close>.
\<close>

record dspy =
  lowercase :: "string \<Rightarrow> string"
  LM :: "string \<Rightarrow> string \<Rightarrow> exn option"
  Module_init :: "module_kind \<Rightarrow> string \<Rightarrow> tool list \<Rightarrow> exn option"
  compile :: "teleprompter \<Rightarrow> (pyobject \<Rightarrow> pyobject \<Rightarrow> exn + bool) \<Rightarrow> program
                \<Rightarrow> dspy_example list \<Rightarrow> exn option"
  forward :: "program \<Rightarrow> (string \<times> pyval) list \<Rightarrow> exn + pyobject"

section \<open>The provider\<close>

text \<open>
  The class \<^verbatim>\<open>DSPyProvider\<close> of \<^verbatim>\<open>provider.py\<close>. An instance holds the client and
  the cache \<^verbatim>\<open>compiled_modules\<close>, a dictionary from cache keys to programs which
  \<^verbatim>\<open>__init__\<close> sets to \<^verbatim>\<open>{}\<close>. A method that allocates objects takes the
  allocation counter of the process and returns it advanced; a method that changes the
  instance returns the changed instance.
\<close>

record provider =
  lm :: "string \<times> string"
  compiled_modules :: "string \<rightharpoonup> program"

type_synonym environ = "string \<rightharpoonup> string"

definition DSPyProvider_init :: "dspy \<Rightarrow> environ \<Rightarrow> exn + provider" where
  "DSPyProvider_init lib env =
     (let api_key = env ''OPENAI_API_KEY'' in
      if api_key = None \<or> api_key = Some [] then
        Inl (Exn ''ValueError'' ''OPENAI_API_KEY environment variable is required'')
      else
        (case LM lib ''openai/gpt-4o-mini'' (the api_key) of
           Some e \<Rightarrow> Inl e
         | None \<Rightarrow> Inr \<lparr>lm = (''openai/gpt-4o-mini'', the api_key),
                        compiled_modules = Map.empty\<rparr>))"

text \<open>
  \<^verbatim>\<open>_optimize_module\<close>: its local function \<^verbatim>\<open>metric\<close> (with the lower-casing
  of Python as its first argument), the two branches that run
  an optimizer (\<open>run_compile\<close>: the optimizer is built with the metric and compiles the
  program on the training set, which yields a new object), and the method itself.
\<close>

definition metric :: "(string \<Rightarrow> string) \<Rightarrow> pyobject \<Rightarrow> pyobject \<Rightarrow> exn + bool" where
  "metric lc gold pred =
     (if hasattr pred ''answer'' \<and> hasattr gold ''answer'' then
        and_then (getattr gold ''answer'') (\<lambda>g.
        and_then (str_lower lc g) (\<lambda>gl.
        and_then (getattr pred ''answer'') (\<lambda>p.
        and_then (str_lower lc p) (\<lambda>pl.
        Inr (contains gl pl)))))
      else Inr True)"

definition run_compile ::
    "dspy \<Rightarrow> teleprompter \<Rightarrow> nat \<Rightarrow> program \<Rightarrow> dspy_example list \<Rightarrow> exn + (program \<times> nat)" where
  "run_compile lib tp h module trainset =
     (case compile lib tp (metric (lowercase lib)) module trainset of
        Some e \<Rightarrow> Inl e
      | None \<Rightarrow> Inr (Compiled h tp module trainset, Suc h))"

definition optimize_module :: "dspy \<Rightarrow> nat \<Rightarrow> program \<Rightarrow> config \<Rightarrow> exn + (program \<times> nat)" where
  "optimize_module lib h module cfg =
     (let optimizer_type = dict_get (optimizer cfg) ''BootstrapFewShot'';
          exs = dict_get (examples cfg) []
      in
      if exs = [] then Inr (module, h)
      else
        (let trainset = map (\<lambda>ex. Example ex (dict_get (inputs ex) [''question''])) exs in
         if optimizer_type = ''BootstrapFewShot'' then
           run_compile lib BootstrapFewShot h module trainset
         else if optimizer_type = ''BootstrapFewShotWithRandomSearch'' then
           run_compile lib (BootstrapFewShotWithRandomSearch 3) h module trainset
         else Inr (module, h)))"

text \<open>
  \<^verbatim>\<open>_get_or_create_module\<close>: the call of a module constructor (\<open>new_module\<close>), the
  key \<^verbatim>\<open>f"{module_type}_{signature}"\<close>, the chain of comparisons that picks the
  constructor (\<open>create_module\<close>), and the method itself: look the key up, else create,
  optimize when asked to, store and return.
\<close>

definition new_module ::
    "dspy \<Rightarrow> nat \<Rightarrow> module_kind \<Rightarrow> string \<Rightarrow> tool list \<Rightarrow> exn + (program \<times> nat)" where
  "new_module lib h k sg ts =
     (case Module_init lib k sg ts of
        Some e \<Rightarrow> Inl e
      | None \<Rightarrow> Inr (Module h k sg ts, Suc h))"

definition cache_key :: "config \<Rightarrow> string" where
  "cache_key cfg =
     dict_get (module_type cfg) ''predict'' @ ''_'' @ dict_get (signature cfg) ''question -> answer''"

definition create_module :: "dspy \<Rightarrow> nat \<Rightarrow> config \<Rightarrow> exn + (program \<times> nat)" where
  "create_module lib h cfg =
     (let mt = dict_get (module_type cfg) ''predict'';
          sg = dict_get (signature cfg) ''question -> answer''
      in
      if mt = ''predict'' then new_module lib h Predict sg []
      else if mt = ''chain_of_thought'' then new_module lib h ChainOfThought sg []
      else if mt = ''program_of_thought'' then new_module lib h ProgramOfThought sg []
      else if mt = ''react'' then
        (let ts = dict_get (tools cfg) [] in
         new_module lib h ReAct sg (if ts = [] then [dummy_tool] else ts))
      else new_module lib h Predict sg [])"

definition get_or_create_module ::
    "dspy \<Rightarrow> provider \<Rightarrow> nat \<Rightarrow> config \<Rightarrow> exn + (program \<times> provider \<times> nat)" where
  "get_or_create_module lib self h cfg =
     (case compiled_modules self (cache_key cfg) of
        Some module \<Rightarrow> Inr (module, self, h)
      | None \<Rightarrow>
          and_then (create_module lib h cfg) (\<lambda>(module, h1).
          and_then (if dict_get (optimize cfg) False then optimize_module lib h1 module cfg
                    else Inr (module, h1)) (\<lambda>(module', h2).
          Inr (module', self\<lparr>compiled_modules := (compiled_modules self)(cache_key cfg \<mapsto> module')\<rparr>, h2))))"

text \<open>
  The provider after further resolutions, each started at some value of the allocation
  counter; a resolution that raises stores nothing.
\<close>

fun resolve_each :: "dspy \<Rightarrow> provider \<Rightarrow> (nat \<times> config) list \<Rightarrow> provider" where
  "resolve_each lib self [] = self"
| "resolve_each lib self ((h, cfg) # rest) =
     (case get_or_create_module lib self h cfg of
        Inl e \<Rightarrow> resolve_each lib self rest
      | Inr (m, self', h') \<Rightarrow> resolve_each lib self' rest)"

text \<open>
  \<^verbatim>\<open>_extract_output\<close> and \<^verbatim>\<open>_get_usage_stats\<close>. The attribute read, the subscript
  and the call of the accessor are the partial operations of Python; the code guards
  each of them.
\<close>

definition extract_output :: "pyobject \<Rightarrow> config \<Rightarrow> exn + string" where
  "extract_output result cfg =
     (let field = dict_get (output_field cfg) ''answer'' in
      if hasattr result field then
        and_then (getattr result field) (\<lambda>v. Inr (py_str v))
      else if isinstance_dict result \<and> has_key result field then
        and_then (getitem result field) (\<lambda>v. Inr (py_str v))
      else Inr (repr result))"

text \<open>
  The usage dictionary with its keys \<^verbatim>\<open>total\<close>, \<^verbatim>\<open>prompt\<close> and
  \<^verbatim>\<open>completion\<close>; the empty dictionary is \<open>None\<close>.
\<close>

record token_usage =
  usage_total :: int
  usage_prompt :: int
  usage_completion :: int

definition no_usage_data :: usage_data where
  "no_usage_data = \<lparr>total_tokens = None, prompt_tokens = None, completion_tokens = None\<rparr>"

fun add_entry :: "usage_entry \<Rightarrow> int \<times> int \<times> int \<Rightarrow> int \<times> int \<times> int" where
  "add_entry (DictEntry own u) (t, p, c) =
     (let ud = dict_get u no_usage_data in
      (t + dict_get (total_tokens ud) 0,
       p + dict_get (prompt_tokens ud) 0,
       c + dict_get (completion_tokens ud) 0))"
| "add_entry OtherEntry (t, p, c) = (t, p, c)"

definition get_usage_stats :: "pyobject \<Rightarrow> exn + token_usage option" where
  "get_usage_stats result =
     (if hasattr result ''get_lm_usage'' then
        and_then (get_lm_usage result) (\<lambda>entries.
          if entries \<noteq> [] then
            (case fold add_entry entries (0, 0, 0) of
               (t, p, c) \<Rightarrow>
                 if t > 0 then Inr (Some \<lparr>usage_total = t, usage_prompt = p, usage_completion = c\<rparr>)
                 else Inr None)
          else Inr None)
      else Inr None)"

section \<open>The entry point\<close>

text \<open>
  \<^verbatim>\<open>call_api(prompt, options, context)\<close>. Besides its three arguments the function
  depends on the framework, on the process environment, on the clock (the text of
  \<^verbatim>\<open>datetime.now().isoformat()\<close>) and on the allocation counter. \<open>call_api_resolve\<close>
  is the first part of the \<^verbatim>\<open>try\<close> block, up to the resolved program;
  \<open>build_kwargs\<close> is the part that fills \<^verbatim>\<open>kwargs\<close>; \<open>call_api_try\<close> is the whole
  block and \<open>call_api\<close> adds the handler \<^verbatim>\<open>except Exception\<close>.
\<close>

record api_options =
  config :: "config option"

record api_context =
  vars :: "(string \<times> pyval) list option"

record metadata =
  md_module_type :: string
  md_signature :: string
  md_optimized :: bool
  md_timestamp :: string

record debug_info =
  full_result :: string
  result_type :: string

text \<open>
  The response dictionary with its keys \<^verbatim>\<open>output\<close>, \<^verbatim>\<open>error\<close>,
  \<^verbatim>\<open>tokenUsage\<close>, \<^verbatim>\<open>metadata\<close> and \<^verbatim>\<open>debug\<close>: a key that is not set is
  \<open>None\<close>.
\<close>

record response =
  resp_output :: string
  resp_error :: "string option"
  resp_tokenUsage :: "token_usage option"
  resp_metadata :: "metadata option"
  resp_debug :: "debug_info option"

definition build_kwargs :: "string \<Rightarrow> (string \<times> pyval) list \<Rightarrow> (string \<times> pyval) list" where
  "build_kwargs prompt vs =
     (if contains ''{{'' prompt then
        fold (\<lambda>(key, v) kwargs. setitem kwargs key v) vs []
      else
        fold (\<lambda>(key, v) kwargs. setitem kwargs key v) vs (setitem [] ''question'' (PStr prompt)))"

definition call_api_resolve ::
    "dspy \<Rightarrow> environ \<Rightarrow> nat \<Rightarrow> api_options \<Rightarrow> exn + (program \<times> provider \<times> nat)" where
  "call_api_resolve lib env h opts =
     and_then (DSPyProvider_init lib env) (\<lambda>self.
     get_or_create_module lib self h (dict_get (config opts) empty_config))"

definition call_api_try ::
    "dspy \<Rightarrow> environ \<Rightarrow> string \<Rightarrow> nat \<Rightarrow> string \<Rightarrow> api_options \<Rightarrow> api_context \<Rightarrow> exn + response" where
  "call_api_try lib env now h prompt opts ctx =
     and_then (call_api_resolve lib env h opts) (\<lambda>(module, self, h').
     (let cfg = dict_get (config opts) empty_config;
          kwargs = build_kwargs prompt (dict_get (vars ctx) [])
      in
      and_then (forward lib module kwargs) (\<lambda>result.
      and_then (extract_output result cfg) (\<lambda>out.
      and_then (get_usage_stats result) (\<lambda>usage.
      Inr \<lparr>resp_output = out, resp_error = None, resp_tokenUsage = usage,
           resp_metadata = Some \<lparr>md_module_type = dict_get (module_type cfg) ''predict'',
             md_signature = dict_get (signature cfg) ''question -> answer'',
             md_optimized = dict_get (optimize cfg) False,
             md_timestamp = now\<rparr>,
           resp_debug =
             (if dict_get (debug cfg) False
              then Some \<lparr>full_result = repr result, result_type = type_name result\<rparr>
              else None)\<rparr>)))))"

definition error_envelope :: "exn \<Rightarrow> response" where
  "error_envelope e =
     \<lparr>resp_output = [], resp_error = Some (''DSPy Provider Error: '' @ exn_str e),
      resp_tokenUsage = None, resp_metadata = None, resp_debug = None\<rparr>"

definition call_api ::
    "dspy \<Rightarrow> environ \<Rightarrow> string \<Rightarrow> nat \<Rightarrow> string \<Rightarrow> api_options \<Rightarrow> api_context \<Rightarrow> response" where
  "call_api lib env now h prompt opts ctx =
     (case call_api_try lib env now h prompt opts ctx of
        Inr r \<Rightarrow> r
      | Inl e \<Rightarrow> error_envelope e)"

section \<open>Credential set-up\<close>

text \<open>
  \<^verbatim>\<open>PromptfooAuth.configure_promptfoo_env\<close> of \<^verbatim>\<open>auth.py\<close>. The credential
  provider is outside the repository: what its two calls return or raise is a
  parameter. The operation returns a Python value (\<open>PBool True\<close>, \<open>PBool False\<close> or
  \<open>PNone\<close>), the process environment it leaves and the texts it printed, one per call
  of \<^verbatim>\<open>print\<close>.
\<close>

record PromptfooAuth =
  base_url :: string
  app_url :: string
  auth_available :: bool

record cake_auth =
  get_recommended_auth_method :: "exn + string"
  get_token :: "exn + string option"

record outcome =
  returned :: pyval
  environ_after :: environ
  printed :: "string list"

definition warning_sign :: string where
  "warning_sign = [CHR 0xE2, CHR 0x9A, CHR 0xA0, CHR 0xEF, CHR 0xB8, CHR 0x8F]"

definition check_mark :: string where
  "check_mark = [CHR 0xE2, CHR 0x9C, CHR 0x93]"

definition key_sign :: string where
  "key_sign = [CHR 0xF0, CHR 0x9F, CHR 0x94, CHR 0x91]"

definition truthy :: "string option \<Rightarrow> bool" where
  "truthy s = (s \<noteq> None \<and> s \<noteq> Some [])"

definition set_auth_env :: "PromptfooAuth \<Rightarrow> string \<Rightarrow> environ \<Rightarrow> environ" where
  "set_auth_env self token env =
     env(''PROMPTFOO_AUTH_TOKEN'' \<mapsto> token,
         ''PROMPTFOO_SHARE_API_BASE_URL'' \<mapsto> base_url self,
         ''PROMPTFOO_SHARE_APP_BASE_URL'' \<mapsto> app_url self,
         ''PROMPTFOO_API_HEADERS'' \<mapsto> ''Authorization: Bearer '' @ token)"

definition unavailable_hints :: "string list" where
  "unavailable_hints =
     [''To enable auth, you can:'',
      ''  1. Set CAKE_JWT_TOKEN with a manual token'',
      ''  2. Set CAKE_DEX_INFERENCE_PASSWORD'',
      ''  3. Or configure AWS credentials for Secrets Manager'']"

definition browser_hints :: "string list" where
  "browser_hints =
     [CHR 0x0A # ''Try browser authentication:'',
      ''  1. Run: python -m cake_auth login'',
      ''  2. Complete authentication in browser'',
      ''  3. Retry the evaluation'']"

definition setup_failed :: "environ \<Rightarrow> string list \<Rightarrow> exn \<Rightarrow> outcome" where
  "setup_failed env out e =
     \<lparr>returned = PBool False, environ_after = env,
      printed = out @ [warning_sign @ ''  Authentication setup failed: '' @ exn_str e]
                  @ (if contains ''browser'' (lower (exn_str e)) then browser_hints else [])\<rparr>"

definition configure_promptfoo_env :: "cake_auth \<Rightarrow> PromptfooAuth \<Rightarrow> environ \<Rightarrow> outcome" where
  "configure_promptfoo_env cake self env =
     (let manual_token = env ''CAKE_JWT_TOKEN'' in
      if truthy manual_token then
        \<lparr>returned = PBool True,
         environ_after = set_auth_env self (the manual_token) env,
         printed = [key_sign @ '' Using manual JWT token'',
                    check_mark @ '' Authentication configured for '' @ base_url self]\<rparr>
      else if \<not> auth_available self then
        \<lparr>returned = PNone, environ_after = env,
         printed = (warning_sign @ ''  Cake auth not available - running without authentication'')
                     # unavailable_hints\<rparr>
      else
        (case get_recommended_auth_method cake of
           Inl e \<Rightarrow> setup_failed env [] e
         | Inr auth_method \<Rightarrow>
             (let out = [''Using auth method: '' @ auth_method] in
              case get_token cake of
                Inl e \<Rightarrow> setup_failed env out e
              | Inr token \<Rightarrow>
                  if truthy token then
                    \<lparr>returned = PBool True,
                     environ_after = set_auth_env self (the token) env,
                     printed = out @ [check_mark @ '' Authentication configured for '' @ base_url self]\<rparr>
                  else
                    \<lparr>returned = PBool False, environ_after = env,
                     printed = out @ [warning_sign
                       @ ''  No auth token retrieved - authentication may fail'']\<rparr>)))"

text \<open>
  The lines that tell the user what to do next, and the test for a warning line.
\<close>

definition remediation_hints :: "string list" where
  "remediation_hints = unavailable_hints @ browser_hints"

definition is_warning :: "string \<Rightarrow> bool" where
  "is_warning line = prefix warning_sign line"

section \<open>Sums over a usage log, and the claims in their own words\<close>

text \<open>
  What one entry adds to the sum of a count, and the sum over a log: the counts are
  those under the key \<^verbatim>\<open>usage\<close> of an entry that is a dictionary.
\<close>

definition entry_count :: "(usage_data \<Rightarrow> int option) \<Rightarrow> usage_entry \<Rightarrow> int" where
  "entry_count field entry =
     (case entry of
        DictEntry own u \<Rightarrow> dict_get (field (dict_get u no_usage_data)) 0
      | OtherEntry \<Rightarrow> 0)"

definition log_sum :: "(usage_data \<Rightarrow> int option) \<Rightarrow> usage_entry list \<Rightarrow> int" where
  "log_sum field entries = sum_list (map (entry_count field) entries)"


text \<open>
  The metric of the spec: containment, after lower-casing, of the expected value of
  the configured output field in the produced value of that field.
\<close>

definition spec_metric ::
    "(string \<Rightarrow> string) \<Rightarrow> config \<Rightarrow> pyobject \<Rightarrow> pyobject \<Rightarrow> exn + bool" where
  "spec_metric lc cfg gold pred =
     (let field = dict_get (output_field cfg) ''answer'' in
      and_then (getattr gold field) (\<lambda>g.
      and_then (str_lower lc g) (\<lambda>gl.
      and_then (getattr pred field) (\<lambda>p.
      and_then (str_lower lc p) (\<lambda>pl.
      Inr (contains gl pl))))))"

section \<open>Sample inputs\<close>

text \<open>
  The lower-casing of the samples: \<^verbatim>\<open>str.lower()\<close> as it is on texts of the blocks
  Basic Latin and Latin-1 Supplement, whose capital letters beyond \<^verbatim>\<open>A-Z\<close> are the
  two-byte characters \<^verbatim>\<open>C3 80\<close> to \<^verbatim>\<open>C3 9E\<close> without the sign \<^verbatim>\<open>C3 97\<close>.
\<close>

definition latin1_small :: "char \<rightharpoonup> char" where
  "latin1_small = map_of (zip
     [
        CHR 0x80, CHR 0x81, CHR 0x82, CHR 0x83, CHR 0x84, CHR 0x85, CHR 0x86, CHR 0x87,
        CHR 0x88, CHR 0x89, CHR 0x8A, CHR 0x8B, CHR 0x8C, CHR 0x8D, CHR 0x8E, CHR 0x8F,
        CHR 0x90, CHR 0x91, CHR 0x92, CHR 0x93, CHR 0x94, CHR 0x95, CHR 0x96, CHR 0x98,
        CHR 0x99, CHR 0x9A, CHR 0x9B, CHR 0x9C, CHR 0x9D, CHR 0x9E]
     [
        CHR 0xA0, CHR 0xA1, CHR 0xA2, CHR 0xA3, CHR 0xA4, CHR 0xA5, CHR 0xA6, CHR 0xA7,
        CHR 0xA8, CHR 0xA9, CHR 0xAA, CHR 0xAB, CHR 0xAC, CHR 0xAD, CHR 0xAE, CHR 0xAF,
        CHR 0xB0, CHR 0xB1, CHR 0xB2, CHR 0xB3, CHR 0xB4, CHR 0xB5, CHR 0xB6, CHR 0xB8,
        CHR 0xB9, CHR 0xBA, CHR 0xBB, CHR 0xBC, CHR 0xBD, CHR 0xBE])"

fun latin_lower :: "string \<Rightarrow> string" where
  "latin_lower [] = []"
| "latin_lower [c] = [lower_char c]"
| "latin_lower (c # d # cs) =
     (if c = CHR 0xC3 \<and> latin1_small d \<noteq> None
      then c # the (latin1_small d) # latin_lower cs
      else lower_char c # latin_lower (d # cs))"

text \<open>
  A framework in which no call raises and every program answers \<open>Paris\<close> with a usage
  log of two entries, one in which every call of a program raises, and one whose
  constructors reject every signature.
\<close>

definition sample_prediction :: pyobject where
  "sample_prediction =
     \<lparr>attrs = [(''answer'', PStr ''Paris'')], items = None,
      repr = ''Prediction(answer=Paris)'', type_name = ''Prediction'',
      usage_accessor = Some (''<bound method Prediction.get_lm_usage>'',
        [DictEntry no_usage_data
           (Some \<lparr>total_tokens = Some 10, prompt_tokens = Some 7, completion_tokens = Some 3\<rparr>),
         DictEntry no_usage_data
           (Some \<lparr>total_tokens = Some 15, prompt_tokens = Some 9, completion_tokens = Some 6\<rparr>)])\<rparr>"

definition quiet_dspy :: dspy where
  "quiet_dspy =
     \<lparr>lowercase = latin_lower, LM = (\<lambda>model key. None), Module_init = (\<lambda>k sg ts. None),
      compile = (\<lambda>tp m p xs. None), forward = (\<lambda>p kwargs. Inr sample_prediction)\<rparr>"

definition failing_dspy :: dspy where
  "failing_dspy =
     \<lparr>lowercase = latin_lower, LM = (\<lambda>model key. None), Module_init = (\<lambda>k sg ts. None),
      compile = (\<lambda>tp m p xs. None),
      forward = (\<lambda>p kwargs. Inl (Exn ''RuntimeError'' ''rate limit exceeded''))\<rparr>"

definition rejecting_dspy :: dspy where
  "rejecting_dspy =
     \<lparr>lowercase = latin_lower, LM = (\<lambda>model key. None),
      Module_init = (\<lambda>k sg ts. Some (Exn ''ValueError'' ''invalid signature'')),
      compile = (\<lambda>tp m p xs. None), forward = (\<lambda>p kwargs. Inr sample_prediction)\<rparr>"

definition key_env :: environ where
  "key_env = [''OPENAI_API_KEY'' \<mapsto> ''sk-test'']"

definition no_options :: api_options where
  "no_options = \<lparr>config = Some empty_config\<rparr>"

definition no_vars :: api_context where
  "no_vars = \<lparr>vars = Some []\<rparr>"

definition fresh_provider :: provider where
  "fresh_provider = \<lparr>lm = (''openai/gpt-4o-mini'', ''sk-test''), compiled_modules = Map.empty\<rparr>"

text \<open>
  Descriptors with different pairs of module type and signature.
\<close>

definition config_a :: config where
  "config_a = empty_config\<lparr>module_type := Some ''predict'', signature := Some ''x_y -> z''\<rparr>"

definition config_b :: config where
  "config_b = empty_config\<lparr>module_type := Some ''predict_x'', signature := Some ''y -> z''\<rparr>"

definition config_c :: config where
  "config_c = empty_config\<lparr>module_type := Some ''react'', signature := Some ''x_y -> z''\<rparr>"

definition config_d :: config where
  "config_d = empty_config\<lparr>module_type := Some ''react_x'', signature := Some ''y -> z''\<rparr>"

definition sample_auth :: PromptfooAuth where
  "sample_auth = \<lparr>base_url = ''https://promptfoo.dev.aws.kflow.ai'',
     app_url = ''https://promptfoo.dev.aws.kflow.ai'', auth_available = True\<rparr>"

definition no_token_cake :: cake_auth where
  "no_token_cake = \<lparr>get_recommended_auth_method = Inr ''password'', get_token = Inr None\<rparr>"

definition timeout_cake :: cake_auth where
  "timeout_cake = \<lparr>get_recommended_auth_method = Inr ''password'',
     get_token = Inl (Exn ''TimeoutError'' ''connection timed out'')\<rparr>"

definition browser_cake :: cake_auth where
  "browser_cake = \<lparr>get_recommended_auth_method = Inr ''browser'',
     get_token = Inl (Exn ''RuntimeError'' ''Browser flow required'')\<rparr>"

definition gold_result :: pyobject where
  "gold_result = \<lparr>attrs = [(''result'', PStr ''Paris'')], items = None,
     repr = ''Example(result=Paris)'', type_name = ''Example'', usage_accessor = None\<rparr>"


definition pred_result :: pyobject where
  "pred_result = \<lparr>attrs = [(''result'', PStr ''London'')], items = None,
     repr = ''Prediction(result=London)'', type_name = ''Prediction'', usage_accessor = None\<rparr>"

section \<open>Auxiliary facts\<close>

lemma and_then_Inl [simp]: "and_then (Inl e) f = Inl e"
  by (simp add: and_then_def)

lemma and_then_Inr [simp]: "and_then (Inr x) f = f x"
  by (simp add: and_then_def)

lemma and_then_eq_Inl:
  "and_then r f = Inl e \<longleftrightarrow> r = Inl e \<or> (\<exists>x. r = Inr x \<and> f x = Inl e)"
  by (cases r) simp_all

text \<open>The substring test is the library's contiguous-sublist relation.\<close>

lemma contains_iff_sublist: "contains sub s = sublist sub s"
  by (induction s) (auto simp: sublist_Cons_right)

lemma setitem_fresh: "key \<notin> fst ` set d \<Longrightarrow> setitem d key v = d @ [(key, v)]"
  by (induction d) auto

lemma fold_setitem_distinct:
  "distinct (map fst (d @ vs)) \<Longrightarrow> fold (\<lambda>(key, v) kwargs. setitem kwargs key v) vs d = d @ vs"
proof (induction vs arbitrary: d)
  case Nil
  then show ?case by simp
next
  case (Cons item vs)
  obtain k v where item: "item = (k, v)" by (cases item)
  from Cons.prems item have fresh: "k \<notin> fst ` set d" by auto
  from Cons.prems item have "distinct (map fst ((d @ [(k, v)]) @ vs))" by auto
  then have "fold (\<lambda>(key, v) kwargs. setitem kwargs key v) vs (d @ [(k, v)]) = (d @ [(k, v)]) @ vs"
    by (rule Cons.IH)
  with fresh item show ?case by (simp add: setitem_fresh)
qed

lemma map_of_setitem: "map_of (setitem d key v) = (map_of d)(key \<mapsto> v)"
  by (induction d) (auto simp: fun_eq_iff)

lemma map_of_fold_setitem:
  "distinct (map fst vs) \<Longrightarrow>
   map_of (fold (\<lambda>(key, v) kwargs. setitem kwargs key v) vs d) = map_of d ++ map_of vs"
proof (induction vs arbitrary: d)
  case Nil
  then show ?case by simp
next
  case (Cons item vs)
  obtain k v where item: "item = (k, v)" by (cases item)
  from Cons.prems item have fresh: "map_of vs k = None"
    by (auto simp: map_of_eq_None_iff)
  from Cons.prems have "distinct (map fst vs)" by simp
  then have "map_of (fold (\<lambda>(key, v) kwargs. setitem kwargs key v) vs (setitem d k v))
      = map_of (setitem d k v) ++ map_of vs"
    by (rule Cons.IH)
  with fresh item show ?case
    by (auto simp: map_of_setitem fun_eq_iff map_add_def split: option.splits)
qed

text \<open>
  Output extraction in closed form: the guards \<^verbatim>\<open>hasattr\<close> and \<^verbatim>\<open>in\<close> make the
  attribute read and the subscript succeed, so no branch raises.
\<close>

lemma extract_output_eq:
  "extract_output result cfg =
     Inr (case lookup_attr result (dict_get (output_field cfg) ''answer'') of
            Some v \<Rightarrow> py_str v
          | None \<Rightarrow>
              (case items result of
                 None \<Rightarrow> repr result
               | Some kvs \<Rightarrow>
                   (case map_of kvs (dict_get (output_field cfg) ''answer'') of
                      Some v \<Rightarrow> py_str v
                    | None \<Rightarrow> repr result)))"
  by (auto simp: extract_output_def Let_def hasattr_def getattr_def isinstance_dict_def
      has_key_def getitem_def split: option.splits)

text \<open>The loop over the usage log adds the three sums to its accumulators.\<close>

lemma fold_add_entry:
  "fold add_entry entries (t, p, c) =
     (t + log_sum total_tokens entries, p + log_sum prompt_tokens entries,
      c + log_sum completion_tokens entries)"
proof (induction entries arbitrary: t p c)
  case Nil
  then show ?case by (simp add: log_sum_def)
next
  case (Cons entry entries)
  then show ?case
    by (cases entry) (simp_all add: log_sum_def entry_count_def Let_def)
qed

lemma get_usage_stats_eq:
  "get_usage_stats result =
     Inr (case usage_accessor result of
            None \<Rightarrow> None
          | Some (txt, entries) \<Rightarrow>
              if log_sum total_tokens entries > 0
              then Some \<lparr>usage_total = log_sum total_tokens entries,
                         usage_prompt = log_sum prompt_tokens entries,
                         usage_completion = log_sum completion_tokens entries\<rparr>
              else None)"
  by (auto simp: get_usage_stats_def hasattr_def lookup_attr_def get_lm_usage_def
      fold_add_entry log_sum_def split: option.splits)

lemma DSPyProvider_init_fresh:
  "DSPyProvider_init lib env = Inr self \<Longrightarrow> compiled_modules self = Map.empty"
  by (auto simp: DSPyProvider_init_def Let_def split: if_splits option.splits)

lemma create_module_unknown:
  assumes "dict_get (module_type cfg) ''predict''
             \<notin> {''predict'', ''chain_of_thought'', ''program_of_thought'', ''react''}"
  shows "create_module lib h cfg
           = new_module lib h Predict (dict_get (signature cfg) ''question -> answer'') []"
  using assms by (simp add: create_module_def Let_def)

lemma cache_key_eq:
  assumes "dict_get (module_type c2) ''predict'' = dict_get (module_type c1) ''predict''"
    and "dict_get (signature c2) ''question -> answer'' = dict_get (signature c1) ''question -> answer''"
  shows "cache_key c2 = cache_key c1"
  using assms by (simp add: cache_key_def)

lemma get_or_create_module_stores:
  assumes "get_or_create_module lib self h cfg = Inr (m, self', h')"
  shows "compiled_modules self' (cache_key cfg) = Some m"
proof (cases "compiled_modules self (cache_key cfg)")
  case None
  with assms show ?thesis
    by (auto simp: get_or_create_module_def and_then_def split: sum.splits prod.splits)
next
  case (Some cached)
  with assms show ?thesis
    by (simp add: get_or_create_module_def)
qed

text \<open>The cache only grows: an entry, once stored, stays as it is.\<close>

lemma get_or_create_module_keeps:
  assumes "get_or_create_module lib self h cfg = Inr (m, self', h')"
    and "compiled_modules self k = Some p"
  shows "compiled_modules self' k = Some p"
proof (cases "compiled_modules self (cache_key cfg)")
  case None
  with assms(2) have "k \<noteq> cache_key cfg" by auto
  with None assms show ?thesis
    by (auto simp: get_or_create_module_def and_then_def split: sum.splits prod.splits)
next
  case (Some cached)
  with assms show ?thesis
    by (simp add: get_or_create_module_def)
qed

lemma resolve_each_keeps:
  "compiled_modules self k = Some p \<Longrightarrow> compiled_modules (resolve_each lib self steps) k = Some p"
proof (induction steps arbitrary: self)
  case Nil
  then show ?case by simp
next
  case (Cons step steps)
  obtain h cfg where step: "step = (h, cfg)" by (cases step)
  show ?case
  proof (cases "get_or_create_module lib self h cfg")
    case (Inl e)
    with Cons step show ?thesis by simp
  next
    case (Inr r)
    obtain m self' h' where r: "r = (m, self', h')" by (cases r)
    from Inr r Cons.prems have "compiled_modules self' k = Some p"
      by (auto dest: get_or_create_module_keeps)
    then have "compiled_modules (resolve_each lib self' steps) k = Some p"
      by (rule Cons.IH)
    with Inr r step show ?thesis by simp
  qed
qed

text \<open>
  A program returned by the resolution step of \<open>call_api\<close> was allocated during that
  step: the provider is new in every call, so its cache is empty when it is consulted.
\<close>

lemma optimize_module_ident:
  "optimize_module lib h m cfg = Inr (m', h') \<Longrightarrow>
     (m' = m \<and> h' = h) \<or> (ident m' = h \<and> h' = Suc h)"
  by (auto simp: optimize_module_def run_compile_def Let_def split: if_splits option.splits)

lemma call_api_resolve_allocates:
  assumes "call_api_resolve lib env h opts = Inr (m, self, h')"
  shows "h \<le> ident m \<and> ident m < h'"
proof -
  from assms obtain self0 where init: "DSPyProvider_init lib env = Inr self0"
    and res: "get_or_create_module lib self0 h (dict_get (config opts) empty_config) = Inr (m, self, h')"
    by (auto simp: call_api_resolve_def and_then_def split: sum.splits)
  let ?cfg = "dict_get (config opts) empty_config"
  from init have "compiled_modules self0 (cache_key ?cfg) = None"
    by (simp add: DSPyProvider_init_fresh)
  with res obtain m0 h1 where cr: "create_module lib h ?cfg = Inr (m0, h1)"
    and opt: "(if dict_get (optimize ?cfg) False then optimize_module lib h1 m0 ?cfg
               else Inr (m0, h1)) = Inr (m, h')"
    by (auto simp: get_or_create_module_def and_then_def split: sum.splits prod.splits)
  from cr have m0: "ident m0 = h \<and> h1 = Suc h"
    by (auto simp: create_module_def new_module_def Let_def split: if_splits option.splits)
  from opt have "(m = m0 \<and> h' = h1) \<or> (ident m = h1 \<and> h' = Suc h1)"
    by (auto split: if_splits dest: optimize_module_ident)
  with m0 show ?thesis by auto
qed

section \<open>The program registry\<close>

text \<open>
  The cache does its work on a provider that is used again: once a resolution has
  returned a program for a descriptor, every later resolution on that provider,
  whatever was resolved in between, for a descriptor with the same module type and
  signature (after defaults) returns that same program, identity included, and changes
  nothing.
\<close>

lemma get_or_create_module_reuses:
  assumes "get_or_create_module lib self h c1 = Inr (m, self', h')"
    and "dict_get (module_type c2) ''predict'' = dict_get (module_type c1) ''predict''"
    and "dict_get (signature c2) ''question -> answer'' = dict_get (signature c1) ''question -> answer''"
  shows "get_or_create_module lib (resolve_each lib self' steps) h2 c2
           = Inr (m, resolve_each lib self' steps, h2) \<and>
         compiled_modules self' (cache_key c1) = Some m \<and>
         (compiled_modules self (cache_key c1) = None \<longrightarrow>
            self' = self\<lparr>compiled_modules := (compiled_modules self)(cache_key c1 \<mapsto> m)\<rparr>)"
proof -
  have stored: "compiled_modules self' (cache_key c1) = Some m"
    using assms(1) by (rule get_or_create_module_stores)
  then have later: "compiled_modules (resolve_each lib self' steps) (cache_key c1) = Some m"
    by (rule resolve_each_keeps)
  have key: "cache_key c2 = cache_key c1"
    using assms(2,3) by (rule cache_key_eq)
  have hit: "get_or_create_module lib (resolve_each lib self' steps) h2 c2
           = Inr (m, resolve_each lib self' steps, h2)"
    using later key by (simp add: get_or_create_module_def)
  have upd: "compiled_modules self (cache_key c1) = None \<longrightarrow>
            self' = self\<lparr>compiled_modules := (compiled_modules self)(cache_key c1 \<mapsto> m)\<rparr>"
    using assms(1)
    by (auto simp: get_or_create_module_def and_then_def split: sum.splits prod.splits)
  from hit stored upd show ?thesis by simp
qed

lemma get_or_create_module_reuses_sample:
  "map_sum id fst (get_or_create_module quiet_dspy
     (resolve_each quiet_dspy
        (fresh_provider\<lparr>compiled_modules := [''predict_question -> answer'' \<mapsto>
           Module 0 Predict ''question -> answer'' []]\<rparr>)
        [(1, config_c)]) 7
     (empty_config\<lparr>module_type := Some ''predict'', debug := Some True\<rparr>))
   = Inr (Module 0 Predict ''question -> answer'' [])"
proof -
  have first: "get_or_create_module quiet_dspy fresh_provider 0 empty_config
      = Inr (Module 0 Predict ''question -> answer'' [],
             fresh_provider\<lparr>compiled_modules := [''predict_question -> answer'' \<mapsto>
               Module 0 Predict ''question -> answer'' []]\<rparr>, 1)"
    by (simp add: get_or_create_module_def create_module_def new_module_def quiet_dspy_def
        fresh_provider_def empty_config_def dict_get_def cache_key_def)
  have mt: "dict_get (module_type (empty_config\<lparr>module_type := Some ''predict'', debug := Some True\<rparr>))
      ''predict'' = dict_get (module_type empty_config) ''predict''"
    by (simp add: empty_config_def dict_get_def)
  have sg: "dict_get (signature (empty_config\<lparr>module_type := Some ''predict'', debug := Some True\<rparr>))
      ''question -> answer'' = dict_get (signature empty_config) ''question -> answer''"
    by (simp add: empty_config_def dict_get_def)
  from get_or_create_module_reuses [OF first mt sg, of "[(1, config_c)]" 7] show ?thesis by simp
qed

text \<open>
  C1. Two calls of program resolution for the same descriptor should return the
  identical cached instance. The code at two calls of the entry point with the empty
  descriptor, one after the other in one process: the first call builds a provider with
  an empty cache, allocates program 0 and leaves the allocation counter at 1; the second
  call, started there, builds another provider, finds its cache empty and allocates
  program 1. The cache set up by the provider is never hit.
\<close>

theorem call_api_resolve_builds_anew:
  "map_sum id fst (call_api_resolve quiet_dspy key_env 0 no_options)
     = Inr (Module 0 Predict ''question -> answer'' []) \<and>
   map_sum id (\<lambda>(m, self, h). h) (call_api_resolve quiet_dspy key_env 0 no_options) = Inr 1 \<and>
   map_sum id fst (call_api_resolve quiet_dspy key_env 1 no_options)
     = Inr (Module 1 Predict ''question -> answer'' []) \<and>
   ident (Module 0 Predict ''question -> answer'' []) \<noteq> ident (Module 1 Predict ''question -> answer'' [])"
  by (simp add: call_api_resolve_def DSPyProvider_init_def get_or_create_module_def
      create_module_def new_module_def quiet_dspy_def key_env_def no_options_def
      empty_config_def dict_get_def cache_key_def)

text \<open>
  C10. The two descriptors \<open>config_a\<close> (\<open>predict\<close>, \<open>x_y -> z\<close>) and \<open>config_b\<close>
  (\<open>predict_x\<close>, \<open>y -> z\<close>) differ in their pair of module type and signature and have
  the same cache key. Each alone, on a new provider, gets a program for its own
  signature; resolved one after the other on one provider, the second gets the very
  program built and cached for the first, with the first's signature. The same happens
  with \<open>config_c\<close> (\<open>react\<close>, \<open>x_y -> z\<close>) and \<open>config_d\<close> (\<open>react_x\<close>,
  \<open>y -> z\<close>), where the second, which alone gets a \<open>Predict\<close> program, is handed the
  \<open>ReAct\<close> program of the first.
\<close>

theorem cache_key_collision:
  "(module_type config_a, signature config_a) \<noteq> (module_type config_b, signature config_b) \<and>
   cache_key config_a = cache_key config_b \<and>
   map_sum id fst (get_or_create_module quiet_dspy fresh_provider 0 config_a)
     = Inr (Module 0 Predict ''x_y -> z'' []) \<and>
   map_sum id fst (get_or_create_module quiet_dspy fresh_provider 0 config_b)
     = Inr (Module 0 Predict ''y -> z'' []) \<and>
   and_then (get_or_create_module quiet_dspy fresh_provider 0 config_a) (\<lambda>(m, self, h).
     map_sum id fst (get_or_create_module quiet_dspy self h config_b))
     = Inr (Module 0 Predict ''x_y -> z'' []) \<and>
   (module_type config_c, signature config_c) \<noteq> (module_type config_d, signature config_d) \<and>
   cache_key config_c = cache_key config_d \<and>
   map_sum id fst (get_or_create_module quiet_dspy fresh_provider 0 config_d)
     = Inr (Module 0 Predict ''y -> z'' []) \<and>
   and_then (get_or_create_module quiet_dspy fresh_provider 0 config_c) (\<lambda>(m, self, h).
     map_sum id fst (get_or_create_module quiet_dspy self h config_d))
     = Inr (Module 0 ReAct ''x_y -> z'' [dummy_tool])"
  by (simp add: config_a_def config_b_def config_c_def config_d_def empty_config_def
      cache_key_def dict_get_def get_or_create_module_def create_module_def new_module_def
      quiet_dspy_def fresh_provider_def)

text \<open>
  C6. For a descriptor whose module type is none of \<open>predict\<close>, \<open>chain_of_thought\<close>,
  \<open>program_of_thought\<close> and \<open>react\<close>, the dispatch builds \<^verbatim>\<open>dspy.Predict\<close> on the
  requested signature. When no program is cached under the key, the constructor accepts
  the signature and no optimization is asked for, resolution returns that new program
  and caches it; an exception of the resolution is one the constructor or the requested
  optimization raised, never one for the unknown kind. Inside \<open>call_api\<close> the provider
  is new, so there the cache never interferes.
\<close>

theorem unknown_module_type_falls_back:
  assumes "dict_get (module_type cfg) ''predict''
             \<notin> {''predict'', ''chain_of_thought'', ''program_of_thought'', ''react''}"
  shows "create_module lib h cfg
           = new_module lib h Predict (dict_get (signature cfg) ''question -> answer'') [] \<and>
    (compiled_modules self (cache_key cfg) = None \<longrightarrow>
     Module_init lib Predict (dict_get (signature cfg) ''question -> answer'') [] = None \<longrightarrow>
     \<not> dict_get (optimize cfg) False \<longrightarrow>
       get_or_create_module lib self h cfg =
         Inr (Module h Predict (dict_get (signature cfg) ''question -> answer'') [],
              self\<lparr>compiled_modules := (compiled_modules self)(cache_key cfg \<mapsto>
                 Module h Predict (dict_get (signature cfg) ''question -> answer'') [])\<rparr>,
              Suc h)) \<and>
    (\<forall>e. compiled_modules self (cache_key cfg) = None \<longrightarrow>
       get_or_create_module lib self h cfg = Inl e \<longrightarrow>
         Module_init lib Predict (dict_get (signature cfg) ''question -> answer'') [] = Some e \<or>
         (dict_get (optimize cfg) False \<and>
          optimize_module lib (Suc h)
            (Module h Predict (dict_get (signature cfg) ''question -> answer'') []) cfg = Inl e)) \<and>
    (\<forall>self0. DSPyProvider_init lib env = Inr self0 \<longrightarrow> config opts = Some cfg \<longrightarrow>
       Module_init lib Predict (dict_get (signature cfg) ''question -> answer'') [] = None \<longrightarrow>
       \<not> dict_get (optimize cfg) False \<longrightarrow>
         map_sum id fst (call_api_resolve lib env h opts)
           = Inr (Module h Predict (dict_get (signature cfg) ''question -> answer'') []))"
proof (intro conjI allI impI)
  show "create_module lib h cfg
          = new_module lib h Predict (dict_get (signature cfg) ''question -> answer'') []"
    using assms by (rule create_module_unknown)
next
  assume "compiled_modules self (cache_key cfg) = None"
    and "Module_init lib Predict (dict_get (signature cfg) ''question -> answer'') [] = None"
    and "\<not> dict_get (optimize cfg) False"
  then show "get_or_create_module lib self h cfg =
         Inr (Module h Predict (dict_get (signature cfg) ''question -> answer'') [],
              self\<lparr>compiled_modules := (compiled_modules self)(cache_key cfg \<mapsto>
                 Module h Predict (dict_get (signature cfg) ''question -> answer'') [])\<rparr>,
              Suc h)"
    by (simp add: get_or_create_module_def create_module_unknown [OF assms] new_module_def)
next
  fix e
  assume "compiled_modules self (cache_key cfg) = None"
    and "get_or_create_module lib self h cfg = Inl e"
  then show "Module_init lib Predict (dict_get (signature cfg) ''question -> answer'') [] = Some e \<or>
         (dict_get (optimize cfg) False \<and>
          optimize_module lib (Suc h)
            (Module h Predict (dict_get (signature cfg) ''question -> answer'') []) cfg = Inl e)"
    by (auto simp: get_or_create_module_def create_module_unknown [OF assms] new_module_def
        and_then_eq_Inl split: option.splits if_splits)
next
  fix self0
  assume "DSPyProvider_init lib env = Inr self0" and "config opts = Some cfg"
    and "Module_init lib Predict (dict_get (signature cfg) ''question -> answer'') [] = None"
    and "\<not> dict_get (optimize cfg) False"
  then show "map_sum id fst (call_api_resolve lib env h opts)
           = Inr (Module h Predict (dict_get (signature cfg) ''question -> answer'') [])"
    by (simp add: call_api_resolve_def get_or_create_module_def DSPyProvider_init_fresh
        create_module_unknown [OF assms] new_module_def dict_get_def)
qed

text \<open>
  C6 at the spec's input: the entry point's resolution of the module type
  \<open>unknown_kind\<close> yields a \<open>Predict\<close> program for the default signature.
\<close>

theorem unknown_module_type_falls_back_witness:
  "map_sum id fst (call_api_resolve quiet_dspy key_env 0
      \<lparr>config = Some (empty_config\<lparr>module_type := Some ''unknown_kind''\<rparr>)\<rparr>)
     = Inr (Module 0 Predict ''question -> answer'' [])"
proof -
  have a: "dict_get (module_type (empty_config\<lparr>module_type := Some ''unknown_kind''\<rparr>)) ''predict''
             \<notin> {''predict'', ''chain_of_thought'', ''program_of_thought'', ''react''}"
    by (simp add: dict_get_def)
  have b: "DSPyProvider_init quiet_dspy key_env = Inr fresh_provider"
    by (simp add: DSPyProvider_init_def quiet_dspy_def key_env_def fresh_provider_def)
  show ?thesis
    using unknown_module_type_falls_back [OF a, of quiet_dspy 0 fresh_provider key_env
        "\<lparr>config = Some (empty_config\<lparr>module_type := Some ''unknown_kind''\<rparr>)\<rparr>"] b
    by (simp add: quiet_dspy_def empty_config_def dict_get_def)
qed

section \<open>Optimization\<close>

text \<open>
  C7. Optimization returns the program it was given, the same instance and without
  allocating anything, when the list of examples is empty or absent, and also when the
  optimizer named is neither \<open>BootstrapFewShot\<close> nor
  \<open>BootstrapFewShotWithRandomSearch\<close>; in both cases the result is a normal return.
\<close>

theorem optimize_module_fallbacks:
  "(dict_get (examples cfg) [] = [] \<longrightarrow> optimize_module lib h module cfg = Inr (module, h)) \<and>
   (dict_get (optimizer cfg) ''BootstrapFewShot'' \<noteq> ''BootstrapFewShot'' \<longrightarrow>
    dict_get (optimizer cfg) ''BootstrapFewShot'' \<noteq> ''BootstrapFewShotWithRandomSearch'' \<longrightarrow>
      optimize_module lib h module cfg = Inr (module, h))"
  by (simp add: optimize_module_def Let_def)

text \<open>
  C7 at concrete inputs: no examples, and one example with the unsupported optimizer
  \<open>MIPRO\<close>.
\<close>

theorem optimize_module_fallbacks_witness:
  "optimize_module quiet_dspy 1 (Module 0 Predict ''question -> answer'' [])
     (empty_config\<lparr>optimize := Some True\<rparr>) = Inr (Module 0 Predict ''question -> answer'' [], 1) \<and>
   optimize_module quiet_dspy 1 (Module 0 Predict ''question -> answer'' [])
     (empty_config\<lparr>optimizer := Some ''MIPRO'',
        examples := Some [\<lparr>named_fields = [(''question'', PStr ''2+2?''), (''answer'', PStr ''4'')],
                           inputs = None\<rparr>]\<rparr>)
     = Inr (Module 0 Predict ''question -> answer'' [], 1)"
proof -
  let ?c1 = "empty_config\<lparr>optimize := Some True\<rparr>"
  let ?c2 = "empty_config\<lparr>optimizer := Some ''MIPRO'',
        examples := Some [\<lparr>named_fields = [(''question'', PStr ''2+2?''), (''answer'', PStr ''4'')],
                           inputs = None\<rparr>]\<rparr>"
  have a: "dict_get (examples ?c1) [] = []" by (simp add: empty_config_def dict_get_def)
  have b: "dict_get (optimizer ?c2) ''BootstrapFewShot'' \<noteq> ''BootstrapFewShot''"
    "dict_get (optimizer ?c2) ''BootstrapFewShot'' \<noteq> ''BootstrapFewShotWithRandomSearch''"
    by (simp_all add: dict_get_def)
  show ?thesis
    using optimize_module_fallbacks [of ?c1 quiet_dspy 1 "Module 0 Predict ''question -> answer'' []"] a
      optimize_module_fallbacks [of ?c2 quiet_dspy 1 "Module 0 Predict ''question -> answer'' []"] b
    by simp
qed

text \<open>
  C8 (as amended). The metric handed to the optimizer reads the fixed attribute
  \<open>answer\<close>, whatever output field the descriptor configures. When the expected and the
  produced object both have a string under \<open>answer\<close>, it tests whether the expected
  answer, lower-cased by \<^verbatim>\<open>str.lower()\<close>, occurs in the produced one, lower-cased
  likewise; when either object lacks the attribute, it scores \<open>True\<close>. It agrees with
  the metric of the spec when the configured output field is \<open>answer\<close> and both objects
  have that attribute.
\<close>

theorem metric_answer_containment:
  "(\<forall>g p. lookup_attr gold ''answer'' = Some (PStr g) \<longrightarrow>
      lookup_attr pred ''answer'' = Some (PStr p) \<longrightarrow>
      metric lc gold pred = Inr (contains (lc g) (lc p))) \<and>
   (lookup_attr gold ''answer'' = None \<or> lookup_attr pred ''answer'' = None \<longrightarrow>
      metric lc gold pred = Inr True) \<and>
   (dict_get (output_field cfg) ''answer'' = ''answer'' \<longrightarrow>
      hasattr gold ''answer'' \<longrightarrow> hasattr pred ''answer'' \<longrightarrow>
      metric lc gold pred = spec_metric lc cfg gold pred)"
  by (auto simp: metric_def spec_metric_def hasattr_def getattr_def str_lower_def Let_def)

text \<open>
  The amended C8 at concrete inputs: \<open>PARIS\<close> is found in \<open>It is Paris.\<close>, \<open>Rome\<close> is
  not, the capital \<^verbatim>\<open>C3 89\<close> (E with acute accent) of the expected answer matches the
  small \<^verbatim>\<open>C3 A9\<close> of the produced one, and an expected object without \<open>answer\<close>
  scores \<open>True\<close>.
\<close>

theorem metric_answer_containment_witness:
  "metric latin_lower (gold_result\<lparr>attrs := [(''answer'', PStr ''PARIS'')]\<rparr>)
          (pred_result\<lparr>attrs := [(''answer'', PStr ''It is Paris.'')]\<rparr>) = Inr True \<and>
   metric latin_lower (gold_result\<lparr>attrs := [(''answer'', PStr ''Rome'')]\<rparr>)
          (pred_result\<lparr>attrs := [(''answer'', PStr ''It is Paris.'')]\<rparr>) = Inr False \<and>
   metric latin_lower (gold_result\<lparr>attrs := [(''answer'', PStr (CHR 0xC3 # CHR 0x89 # ''COLE''))]\<rparr>)
          (pred_result\<lparr>attrs := [(''answer'', PStr (CHR 0xC3 # CHR 0xA9 # ''cole''))]\<rparr>) = Inr True \<and>
   metric latin_lower gold_result
          (pred_result\<lparr>attrs := [(''answer'', PStr ''It is Paris.'')]\<rparr>) = Inr True"
proof -
  let ?g1 = "gold_result\<lparr>attrs := [(''answer'', PStr ''PARIS'')]\<rparr>"
  let ?g2 = "gold_result\<lparr>attrs := [(''answer'', PStr ''Rome'')]\<rparr>"
  let ?g3 = "gold_result\<lparr>attrs := [(''answer'', PStr (CHR 0xC3 # CHR 0x89 # ''COLE''))]\<rparr>"
  let ?p = "pred_result\<lparr>attrs := [(''answer'', PStr ''It is Paris.'')]\<rparr>"
  let ?p3 = "pred_result\<lparr>attrs := [(''answer'', PStr (CHR 0xC3 # CHR 0xA9 # ''cole''))]\<rparr>"
  have g1: "lookup_attr ?g1 ''answer'' = Some (PStr ''PARIS'')" by (simp add: lookup_attr_def)
  have g2: "lookup_attr ?g2 ''answer'' = Some (PStr ''Rome'')" by (simp add: lookup_attr_def)
  have g3: "lookup_attr ?g3 ''answer'' = Some (PStr (CHR 0xC3 # CHR 0x89 # ''COLE''))"
    by (simp add: lookup_attr_def)
  have g4: "lookup_attr gold_result ''answer'' = None" by (simp add: lookup_attr_def gold_result_def)
  have p: "lookup_attr ?p ''answer'' = Some (PStr ''It is Paris.'')" by (simp add: lookup_attr_def)
  have p3: "lookup_attr ?p3 ''answer'' = Some (PStr (CHR 0xC3 # CHR 0xA9 # ''cole''))"
    by (simp add: lookup_attr_def)
  have yes: "contains (latin_lower ''PARIS'') (latin_lower ''It is Paris.'')"
    by (simp add: lower_char_def latin1_small_def)
  have no: "\<not> contains (latin_lower ''Rome'') (latin_lower ''It is Paris.'')"
    by (simp add: lower_char_def latin1_small_def)
  have acc: "contains (latin_lower (CHR 0xC3 # CHR 0x89 # ''COLE''))
      (latin_lower (CHR 0xC3 # CHR 0xA9 # ''cole''))"
    by (simp add: lower_char_def latin1_small_def)
  have c1: "metric latin_lower ?g1 ?p = Inr True"
    using metric_answer_containment [of ?g1 ?p latin_lower] g1 p yes by simp
  have c2: "metric latin_lower ?g2 ?p = Inr False"
    using metric_answer_containment [of ?g2 ?p latin_lower] g2 p no by simp
  have c3: "metric latin_lower ?g3 ?p3 = Inr True"
    using metric_answer_containment [of ?g3 ?p3 latin_lower] g3 p3 acc by simp
  have c4: "metric latin_lower gold_result ?p = Inr True"
    using metric_answer_containment [of gold_result ?p latin_lower] g4 by simp
  from c1 c2 c3 c4 show ?thesis by simp
qed

text \<open>
  C8 as stated fails: with the output field configured as \<open>result\<close>, an expected
  \<open>Paris\<close> and a produced \<open>London\<close>, the metric of the code scores \<open>True\<close> while
  containment on the configured field is \<open>False\<close>.
\<close>

theorem metric_ignores_output_field:
  "metric latin_lower gold_result pred_result = Inr True \<and>
   spec_metric latin_lower (empty_config\<lparr>output_field := Some ''result''\<rparr>) gold_result pred_result
     = Inr False"
  by (simp add: metric_def spec_metric_def hasattr_def getattr_def lookup_attr_def str_lower_def
      gold_result_def pred_result_def empty_config_def dict_get_def lower_char_def latin1_small_def)

section \<open>The invocation adapter\<close>

text \<open>
  C3. For a prompt and a dictionary of variables (each key held once): when the prompt
  contains the marker \<open>{{\<close>, the keyword arguments are exactly the variables, in their
  order and without the prompt; otherwise they bind every variable to its value and,
  unless a variable is itself named \<open>question\<close>, the key \<open>question\<close> to the prompt, so
  that a variable \<open>question\<close> overrides the prompt.
\<close>

theorem build_kwargs_policy:
  assumes "distinct (map fst vs)"
  shows "(contains ''{{'' prompt \<longrightarrow> build_kwargs prompt vs = vs) \<and>
         (\<not> contains ''{{'' prompt \<longrightarrow>
            (\<forall>k. map_of (build_kwargs prompt vs) k =
               (case map_of vs k of
                  Some v \<Rightarrow> Some v
                | None \<Rightarrow> if k = ''question'' then Some (PStr prompt) else None)))"
  using assms fold_setitem_distinct [of "[]" vs]
  by (auto simp: build_kwargs_def map_of_fold_setitem map_add_def split: option.splits)

text \<open>
  C3 at concrete inputs: a templated prompt, a plain prompt with a variable
  \<open>question\<close>, and a plain prompt without one.
\<close>

theorem build_kwargs_policy_witness:
  "build_kwargs ''Translate {{text}}'' [(''text'', PStr ''hello'')] = [(''text'', PStr ''hello'')] \<and>
   map_of (build_kwargs ''What is it?'' [(''question'', PStr ''other''), (''lang'', PStr ''fr'')]) ''question''
     = Some (PStr ''other'') \<and>
   map_of (build_kwargs ''What is it?'' [(''lang'', PStr ''fr'')]) ''question''
     = Some (PStr ''What is it?'')"
proof -
  have d1: "distinct (map fst [(''text'', PStr ''hello'')])" by simp
  have d2: "distinct (map fst [(''question'', PStr ''other''), (''lang'', PStr ''fr'')])" by simp
  have d3: "distinct (map fst [(''lang'', PStr ''fr'')])" by simp
  have m1: "contains ''{{'' ''Translate {{text}}''" by simp
  have m2: "\<not> contains ''{{'' ''What is it?''" by simp
  show ?thesis
    using build_kwargs_policy [OF d1, of "''Translate {{text}}''"]
      build_kwargs_policy [OF d2, of "''What is it?''"]
      build_kwargs_policy [OF d3, of "''What is it?''"] m1 m2
    by simp
qed

text \<open>
  C4. Output extraction returns normally, with a string, for every result object and
  descriptor: the text of the attribute named by the output field (\<open>answer\<close> when the
  descriptor names none) when the result has that attribute; else the text of the value
  under that key when the result is a dictionary holding it; else the text of the result
  itself.
\<close>

theorem extract_output_never_raises:
  "(\<exists>s. extract_output result cfg = Inr s) \<and>
   (\<forall>v. lookup_attr result (dict_get (output_field cfg) ''answer'') = Some v \<longrightarrow>
        extract_output result cfg = Inr (py_str v)) \<and>
   (\<forall>kvs v. lookup_attr result (dict_get (output_field cfg) ''answer'') = None \<longrightarrow>
        items result = Some kvs \<longrightarrow> map_of kvs (dict_get (output_field cfg) ''answer'') = Some v \<longrightarrow>
        extract_output result cfg = Inr (py_str v)) \<and>
   (lookup_attr result (dict_get (output_field cfg) ''answer'') = None \<longrightarrow>
      (\<forall>kvs. items result = Some kvs \<longrightarrow> map_of kvs (dict_get (output_field cfg) ''answer'') = None) \<longrightarrow>
      extract_output result cfg = Inr (repr result)) \<and>
   (output_field cfg = None \<longrightarrow> dict_get (output_field cfg) ''answer'' = ''answer'')"
  by (auto simp: extract_output_eq dict_get_def split: option.splits)

text \<open>
  C4 at concrete inputs: an attribute, a dictionary key holding the integer 42, neither
  of them, and a configured output field.
\<close>

theorem extract_output_never_raises_witness:
  "extract_output sample_prediction empty_config = Inr ''Paris'' \<and>
   extract_output (gold_result\<lparr>items := Some [(''answer'', PInt 42)]\<rparr>) empty_config = Inr ''42'' \<and>
   extract_output gold_result empty_config = Inr ''Example(result=Paris)'' \<and>
   extract_output gold_result (empty_config\<lparr>output_field := Some ''result''\<rparr>) = Inr ''Paris''"
proof -
  let ?d = "gold_result\<lparr>items := Some [(''answer'', PInt 42)]\<rparr>"
  let ?c = "empty_config\<lparr>output_field := Some ''result''\<rparr>"
  have f: "dict_get (output_field empty_config) ''answer'' = ''answer''"
    "dict_get (output_field ?c) ''answer'' = ''result''"
    by (simp_all add: empty_config_def dict_get_def)
  have a: "lookup_attr sample_prediction ''answer'' = Some (PStr ''Paris'')"
    by (simp add: lookup_attr_def sample_prediction_def)
  have b: "lookup_attr ?d ''answer'' = None" "items ?d = Some [(''answer'', PInt 42)]"
    "map_of [(''answer'', PInt 42)] ''answer'' = Some (PInt 42)"
    by (simp_all add: lookup_attr_def gold_result_def)
  have c: "lookup_attr gold_result ''answer'' = None" "items gold_result = None"
    "repr gold_result = ''Example(result=Paris)''"
    by (simp_all add: lookup_attr_def gold_result_def)
  have d: "lookup_attr gold_result ''result'' = Some (PStr ''Paris'')"
    by (simp add: lookup_attr_def gold_result_def)
  have n: "py_str (PInt 42) = ''42''"
    by (simp add: string_of_int_def string_of_nat.simps [of 42] string_of_nat.simps [of 4])
  show ?thesis
    using extract_output_never_raises [of sample_prediction empty_config]
      extract_output_never_raises [of ?d empty_config]
      extract_output_never_raises [of gold_result empty_config]
      extract_output_never_raises [of gold_result ?c] f a b c d n
    by simp
qed




section \<open>The entry point never raises\<close>

text \<open>
  C2. Whatever the prompt, the options and the context, \<open>call_api\<close> returns a response.
  An exception raised by the construction of the provider, by the resolution of the
  program or by the call of the program becomes the envelope whose \<open>error\<close> is
  \<open>DSPy Provider Error: \<close> followed by the text of the exception and whose \<open>output\<close> is
  empty; building the keyword arguments and reading the result raise nothing, so once
  the program has returned, the response carries no error and the extracted output.
\<close>

theorem call_api_catches:
  "(\<forall>e. DSPyProvider_init lib env = Inl e \<longrightarrow>
      call_api lib env now h prompt opts ctx =
        \<lparr>resp_output = [], resp_error = Some (''DSPy Provider Error: '' @ exn_str e),
         resp_tokenUsage = None, resp_metadata = None, resp_debug = None\<rparr>) \<and>
   (\<forall>self e. DSPyProvider_init lib env = Inr self \<longrightarrow>
      get_or_create_module lib self h (dict_get (config opts) empty_config) = Inl e \<longrightarrow>
      call_api lib env now h prompt opts ctx =
        \<lparr>resp_output = [], resp_error = Some (''DSPy Provider Error: '' @ exn_str e),
         resp_tokenUsage = None, resp_metadata = None, resp_debug = None\<rparr>) \<and>
   (\<forall>self m self' h' e. DSPyProvider_init lib env = Inr self \<longrightarrow>
      get_or_create_module lib self h (dict_get (config opts) empty_config) = Inr (m, self', h') \<longrightarrow>
      forward lib m (build_kwargs prompt (dict_get (vars ctx) [])) = Inl e \<longrightarrow>
      call_api lib env now h prompt opts ctx =
        \<lparr>resp_output = [], resp_error = Some (''DSPy Provider Error: '' @ exn_str e),
         resp_tokenUsage = None, resp_metadata = None, resp_debug = None\<rparr>) \<and>
   (\<forall>self m self' h' result. DSPyProvider_init lib env = Inr self \<longrightarrow>
      get_or_create_module lib self h (dict_get (config opts) empty_config) = Inr (m, self', h') \<longrightarrow>
      forward lib m (build_kwargs prompt (dict_get (vars ctx) [])) = Inr result \<longrightarrow>
      resp_error (call_api lib env now h prompt opts ctx) = None \<and>
      extract_output result (dict_get (config opts) empty_config)
        = Inr (resp_output (call_api lib env now h prompt opts ctx)))"
  by (simp add: call_api_def call_api_try_def call_api_resolve_def error_envelope_def
      extract_output_eq get_usage_stats_eq Let_def)

text \<open>
  C2 at concrete inputs: no API key, a constructor that rejects the signature, a
  program whose call raises, and a run without exception.
\<close>

theorem call_api_catches_witness:
  "call_api quiet_dspy Map.empty ''2026-01-01T00:00:00'' 0 ''What is the capital of France?''
      no_options no_vars =
     \<lparr>resp_output = [],
      resp_error = Some ''DSPy Provider Error: OPENAI_API_KEY environment variable is required'',
      resp_tokenUsage = None, resp_metadata = None, resp_debug = None\<rparr> \<and>
   call_api rejecting_dspy key_env ''2026-01-01T00:00:00'' 0 ''What is the capital of France?''
      no_options no_vars =
     \<lparr>resp_output = [], resp_error = Some ''DSPy Provider Error: invalid signature'',
      resp_tokenUsage = None, resp_metadata = None, resp_debug = None\<rparr> \<and>
   call_api failing_dspy key_env ''2026-01-01T00:00:00'' 0 ''What is the capital of France?''
      no_options no_vars =
     \<lparr>resp_output = [], resp_error = Some ''DSPy Provider Error: rate limit exceeded'',
      resp_tokenUsage = None, resp_metadata = None, resp_debug = None\<rparr> \<and>
   resp_error (call_api quiet_dspy key_env ''2026-01-01T00:00:00'' 0
      ''What is the capital of France?'' no_options no_vars) = None \<and>
   resp_output (call_api quiet_dspy key_env ''2026-01-01T00:00:00'' 0
      ''What is the capital of France?'' no_options no_vars) = ''Paris''"
proof -
  let ?now = "''2026-01-01T00:00:00''" and ?q = "''What is the capital of France?''"
  have nokey: "DSPyProvider_init quiet_dspy Map.empty
      = Inl (Exn ''ValueError'' ''OPENAI_API_KEY environment variable is required'')"
    by (simp add: DSPyProvider_init_def)
  have init_r: "DSPyProvider_init rejecting_dspy key_env = Inr fresh_provider"
    by (simp add: DSPyProvider_init_def rejecting_dspy_def key_env_def fresh_provider_def)
  have init_f: "DSPyProvider_init failing_dspy key_env = Inr fresh_provider"
    by (simp add: DSPyProvider_init_def failing_dspy_def key_env_def fresh_provider_def)
  have init_q: "DSPyProvider_init quiet_dspy key_env = Inr fresh_provider"
    by (simp add: DSPyProvider_init_def quiet_dspy_def key_env_def fresh_provider_def)
  have res_r: "get_or_create_module rejecting_dspy fresh_provider 0
      (dict_get (config no_options) empty_config) = Inl (Exn ''ValueError'' ''invalid signature'')"
    by (simp add: get_or_create_module_def create_module_def new_module_def rejecting_dspy_def
        fresh_provider_def no_options_def empty_config_def dict_get_def cache_key_def)
  have res_f: "get_or_create_module failing_dspy fresh_provider 0
      (dict_get (config no_options) empty_config)
      = Inr (Module 0 Predict ''question -> answer'' [],
             fresh_provider\<lparr>compiled_modules := [''predict_question -> answer'' \<mapsto>
               Module 0 Predict ''question -> answer'' []]\<rparr>, 1)"
    by (simp add: get_or_create_module_def create_module_def new_module_def failing_dspy_def
        fresh_provider_def no_options_def empty_config_def dict_get_def cache_key_def)
  have res_q: "get_or_create_module quiet_dspy fresh_provider 0
      (dict_get (config no_options) empty_config)
      = Inr (Module 0 Predict ''question -> answer'' [],
             fresh_provider\<lparr>compiled_modules := [''predict_question -> answer'' \<mapsto>
               Module 0 Predict ''question -> answer'' []]\<rparr>, 1)"
    by (simp add: get_or_create_module_def create_module_def new_module_def quiet_dspy_def
        fresh_provider_def no_options_def empty_config_def dict_get_def cache_key_def)
  have fwd_f: "forward failing_dspy (Module 0 Predict ''question -> answer'' [])
      (build_kwargs ?q (dict_get (vars no_vars) [])) = Inl (Exn ''RuntimeError'' ''rate limit exceeded'')"
    by (simp add: failing_dspy_def)
  have fwd_q: "forward quiet_dspy (Module 0 Predict ''question -> answer'' [])
      (build_kwargs ?q (dict_get (vars no_vars) [])) = Inr sample_prediction"
    by (simp add: quiet_dspy_def)
  have out_q: "extract_output sample_prediction (dict_get (config no_options) empty_config) = Inr ''Paris''"
    by (simp add: extract_output_eq sample_prediction_def no_options_def empty_config_def
        dict_get_def lookup_attr_def)
  note t1 = call_api_catches [of quiet_dspy Map.empty ?now 0 ?q no_options no_vars]
  note t2 = call_api_catches [of rejecting_dspy key_env ?now 0 ?q no_options no_vars]
  note t3 = call_api_catches [of failing_dspy key_env ?now 0 ?q no_options no_vars]
  note t4 = call_api_catches [of quiet_dspy key_env ?now 0 ?q no_options no_vars]
  have c1: "call_api quiet_dspy Map.empty ?now 0 ?q no_options no_vars =
     \<lparr>resp_output = [],
      resp_error = Some ''DSPy Provider Error: OPENAI_API_KEY environment variable is required'',
      resp_tokenUsage = None, resp_metadata = None, resp_debug = None\<rparr>"
    using t1 nokey by simp
  have c2: "call_api rejecting_dspy key_env ?now 0 ?q no_options no_vars =
     \<lparr>resp_output = [], resp_error = Some ''DSPy Provider Error: invalid signature'',
      resp_tokenUsage = None, resp_metadata = None, resp_debug = None\<rparr>"
    using t2 init_r res_r by simp
  have c3: "call_api failing_dspy key_env ?now 0 ?q no_options no_vars =
     \<lparr>resp_output = [], resp_error = Some ''DSPy Provider Error: rate limit exceeded'',
      resp_tokenUsage = None, resp_metadata = None, resp_debug = None\<rparr>"
    using t3 init_f res_f fwd_f by simp
  have c4: "resp_error (call_api quiet_dspy key_env ?now 0 ?q no_options no_vars) = None \<and>
     resp_output (call_api quiet_dspy key_env ?now 0 ?q no_options no_vars) = ''Paris''"
    using t4 init_q res_q fwd_q out_q by simp
  from c1 c2 c3 c4 show ?thesis by simp
qed

section \<open>Failures of the credential set-up\<close>

text \<open>
  C9 (as amended). With no manual token in the environment, every failure of the
  credential set-up ends in a normal return that leaves the environment unchanged and
  prints a warning line. The operation returns \<open>False\<close> when no token is retrieved and
  when the set-up raises an exception. Remediation hints are printed when the auth
  system is unavailable and, after an exception, exactly when its text contains
  \<open>browser\<close> in any letter case; when no token is retrieved only the warning is
  printed.
\<close>

theorem configure_promptfoo_env_failures:
  assumes "\<not> truthy (env ''CAKE_JWT_TOKEN'')"
  shows
   "(\<not> auth_available self \<longrightarrow>
       printed (configure_promptfoo_env cake self env)
         = (warning_sign @ ''  Cake auth not available - running without authentication'')
             # unavailable_hints \<and>
       environ_after (configure_promptfoo_env cake self env) = env) \<and>
    (\<forall>method token. auth_available self \<longrightarrow> get_recommended_auth_method cake = Inr method \<longrightarrow>
       get_token cake = Inr token \<longrightarrow> \<not> truthy token \<longrightarrow>
       configure_promptfoo_env cake self env =
         \<lparr>returned = PBool False, environ_after = env,
          printed = [''Using auth method: '' @ method,
                     warning_sign @ ''  No auth token retrieved - authentication may fail'']\<rparr>) \<and>
    (\<forall>e. auth_available self \<longrightarrow> get_recommended_auth_method cake = Inl e \<longrightarrow>
       configure_promptfoo_env cake self env =
         \<lparr>returned = PBool False, environ_after = env,
          printed = [warning_sign @ ''  Authentication setup failed: '' @ exn_str e]
                     @ (if contains ''browser'' (lower (exn_str e)) then browser_hints else [])\<rparr>) \<and>
    (\<forall>method e. auth_available self \<longrightarrow> get_recommended_auth_method cake = Inr method \<longrightarrow>
       get_token cake = Inl e \<longrightarrow>
       configure_promptfoo_env cake self env =
         \<lparr>returned = PBool False, environ_after = env,
          printed = [''Using auth method: '' @ method,
                     warning_sign @ ''  Authentication setup failed: '' @ exn_str e]
                     @ (if contains ''browser'' (lower (exn_str e)) then browser_hints else [])\<rparr>) \<and>
    (returned (configure_promptfoo_env cake self env) \<noteq> PBool True \<longrightarrow>
       list_ex is_warning (printed (configure_promptfoo_env cake self env)))"
  using assms
  by (auto simp: configure_promptfoo_env_def setup_failed_def Let_def is_warning_def
      split: sum.splits)

text \<open>
  The amended C9 at concrete inputs: no token, an exception that mentions the browser,
  and an unavailable auth system.
\<close>

theorem configure_promptfoo_env_failures_witness:
  "configure_promptfoo_env no_token_cake sample_auth Map.empty =
     \<lparr>returned = PBool False, environ_after = Map.empty,
      printed = [''Using auth method: password'',
                 warning_sign @ ''  No auth token retrieved - authentication may fail'']\<rparr> \<and>
   configure_promptfoo_env browser_cake sample_auth Map.empty =
     \<lparr>returned = PBool False, environ_after = Map.empty,
      printed = [''Using auth method: browser'',
                 warning_sign @ ''  Authentication setup failed: Browser flow required'']
                 @ browser_hints\<rparr> \<and>
   printed (configure_promptfoo_env browser_cake (sample_auth\<lparr>auth_available := False\<rparr>) Map.empty)
     = (warning_sign @ ''  Cake auth not available - running without authentication'')
         # unavailable_hints"
proof -
  have nt: "\<not> truthy ((Map.empty :: environ) ''CAKE_JWT_TOKEN'')" by (simp add: truthy_def)
  have av: "auth_available sample_auth" by (simp add: sample_auth_def)
  have un: "\<not> auth_available (sample_auth\<lparr>auth_available := False\<rparr>)" by simp
  have m1: "get_recommended_auth_method no_token_cake = Inr ''password''"
    and t1: "get_token no_token_cake = Inr None" by (simp_all add: no_token_cake_def)
  have f1: "\<not> truthy None" by (simp add: truthy_def)
  have m2: "get_recommended_auth_method browser_cake = Inr ''browser''"
    and t2: "get_token browser_cake = Inl (Exn ''RuntimeError'' ''Browser flow required'')"
    by (simp_all add: browser_cake_def)
  have br: "contains ''browser'' (lower (exn_str (Exn ''RuntimeError'' ''Browser flow required'')))"
    by (simp add: lower_def lower_char_def)
  show ?thesis
    using configure_promptfoo_env_failures [OF nt, of sample_auth no_token_cake] av m1 t1 f1
      configure_promptfoo_env_failures [OF nt, of sample_auth browser_cake] m2 t2 br
      configure_promptfoo_env_failures [OF nt, of "sample_auth\<lparr>auth_available := False\<rparr>" browser_cake] un
    by simp
qed

text \<open>
  C9 as stated fails. With the auth system unavailable the operation returns \<open>None\<close>,
  not \<open>False\<close>. When no token is retrieved, and when the set-up raises an exception
  whose text does not mention the browser, none of the printed lines is a remediation
  hint.
\<close>

theorem configure_promptfoo_env_not_uniform:
  "returned (configure_promptfoo_env no_token_cake (sample_auth\<lparr>auth_available := False\<rparr>) Map.empty)
     = PNone \<and>
   returned (configure_promptfoo_env no_token_cake (sample_auth\<lparr>auth_available := False\<rparr>) Map.empty)
     \<noteq> PBool False \<and>
   printed (configure_promptfoo_env no_token_cake sample_auth Map.empty)
     = [''Using auth method: password'',
        warning_sign @ ''  No auth token retrieved - authentication may fail''] \<and>
   set (printed (configure_promptfoo_env no_token_cake sample_auth Map.empty))
     \<inter> set remediation_hints = {} \<and>
   printed (configure_promptfoo_env timeout_cake sample_auth Map.empty)
     = [''Using auth method: password'',
        warning_sign @ ''  Authentication setup failed: connection timed out''] \<and>
   set (printed (configure_promptfoo_env timeout_cake sample_auth Map.empty))
     \<inter> set remediation_hints = {}"
  by (simp add: configure_promptfoo_env_def setup_failed_def truthy_def sample_auth_def
      no_token_cake_def timeout_cake_def remediation_hints_def unavailable_hints_def
      browser_hints_def warning_sign_def lower_def lower_char_def)

end
